theory Spec2Isabelle
  imports Main
begin

section \<open>The user record and its storage attributes\<close>

text \<open>
  \<^verbatim>\<open>pkg/user/user.go\<close> keeps one kind of record, \<^verbatim>\<open>User\<close>, with the JSON names
  \<^verbatim>\<open>email\<close>, \<^verbatim>\<open>firstName\<close> and \<^verbatim>\<open>lastName\<close>. Errors are bare message strings
  (\<^verbatim>\<open>errors.New(ErrorX)\<close>), so an error value is the message itself.
\<close>

record User =
  Email :: string
  FirstName :: string
  LastName :: string

definition zeroUser :: User where
  "zeroUser = \<lparr>Email = [], FirstName = [], LastName = []\<rparr>"

definition ErrorFailedToUnmarshalRecord :: string where
  "ErrorFailedToUnmarshalRecord = ''failed to unmarshal record''"

definition ErrorFailedToFetchRecord :: string where
  "ErrorFailedToFetchRecord = ''failed to fetch record''"

definition ErrorInvalidUserData :: string where
  "ErrorInvalidUserData = ''invalid user data''"

definition ErrorInvalidEmail :: string where
  "ErrorInvalidEmail = ''invalid email''"

definition ErrorCouldNotMarshalItem :: string where
  "ErrorCouldNotMarshalItem = ''could not marshal item''"

definition ErrorCouldNotDeleteItem :: string where
  "ErrorCouldNotDeleteItem = ''could not delete item''"

definition ErrorCouldNotPutItem :: string where
  "ErrorCouldNotPutItem = ''could not put item''"

definition ErrorUserAlreadyExists :: string where
  "ErrorUserAlreadyExists = ''user already exists''"

definition ErrorUserDoesNotExist :: string where
  "ErrorUserDoesNotExist = ''user does not exist''"

lemmas error_defs =
  ErrorFailedToUnmarshalRecord_def ErrorFailedToFetchRecord_def ErrorInvalidUserData_def
  ErrorInvalidEmail_def ErrorCouldNotMarshalItem_def ErrorCouldNotDeleteItem_def
  ErrorCouldNotPutItem_def ErrorUserAlreadyExists_def ErrorUserDoesNotExist_def

subsection \<open>Attribute values and the attribute marshaller\<close>

text \<open>
  A stored item is a Go \<^verbatim>\<open>map[string]*dynamodb.AttributeValue\<close>, here an association
  list read with \<^const>\<open>map_of\<close>. Of the attribute kinds only those are kept that decide a
  branch of the program: a string (\<^verbatim>\<open>S\<close>), the null marker (\<^verbatim>\<open>NULL\<close>) that the marshaller
  writes for an empty string, and a boolean (\<^verbatim>\<open>BOOL\<close>) as the kind that does not decode into
  a string field. The names in an item are distinct, as the keys of a Go map are.
\<close>

datatype AttributeValue = AV_S string | AV_BOOL bool | AV_NULL bool

type_synonym Item = "(string \<times> AttributeValue) list"

definition encodeString :: "string \<Rightarrow> AttributeValue" where
  "encodeString v = (if v = [] then AV_NULL True else AV_S v)"

text \<open>
  \<^verbatim>\<open>dynamodbattribute.MarshalMap(user)\<close>: one attribute per field of the struct, under the
  field's JSON name. It returns an error value that the callers test; for a struct of
  strings it never fails.
\<close>

definition MarshalMap :: "User \<Rightarrow> Item option" where
  "MarshalMap u =
     Some [(''email'', encodeString (Email u)),
           (''firstName'', encodeString (FirstName u)),
           (''lastName'', encodeString (LastName u))]"

text \<open>
  \<^verbatim>\<open>dynamodbattribute.UnmarshalMap(m, out)\<close> ranges over the attributes of \<open>m\<close>. For each
  name it looks for the field of the struct: a field whose JSON name is this name as
  written, or else the first field whose name equals it under \<^verbatim>\<open>strings.EqualFold\<close>.
  An attribute that names a field is decoded into it and overwrites what the field held;
  an attribute that names none is skipped; a field no attribute names keeps the value
  \<open>out\<close> had. Decoding an attribute stores a string, empties the field for the null
  marker, and fails for a boolean.

  Go ranges over a map in an order it does not specify. The order of the association
  list stands for that order; it decides the result only when two attributes of one item
  name the same field.
\<close>

datatype Field = FEmail | FFirstName | FLastName

definition userFields :: "Field list" where
  "userFields = [FEmail, FFirstName, FLastName]"

fun field_name :: "Field \<Rightarrow> string" where
  "field_name FEmail = ''email''"
| "field_name FFirstName = ''firstName''"
| "field_name FLastName = ''lastName''"

fun set_field :: "Field \<Rightarrow> string \<Rightarrow> User \<Rightarrow> User" where
  "set_field FEmail v u = u\<lparr>Email := v\<rparr>"
| "set_field FFirstName v u = u\<lparr>FirstName := v\<rparr>"
| "set_field FLastName v u = u\<lparr>LastName := v\<rparr>"

definition ascii_lower :: "char \<Rightarrow> char" where
  "ascii_lower c =
     (case map_of (zip ''ABCDEFGHIJKLMNOPQRSTUVWXYZ'' ''abcdefghijklmnopqrstuvwxyz'') c of
        None \<Rightarrow> c
      | Some l \<Rightarrow> l)"

text \<open>
  \<^verbatim>\<open>strings.EqualFold(name, t)\<close> for an ASCII \<open>name\<close>, as the field names are, and any
  byte string \<open>t\<close>: a letter of \<open>name\<close> is matched by the same letter in either case, and
  besides by the two code points outside ASCII that fold to an ASCII letter, the long s
  (U+017F, bytes C5 BF) for \<open>s\<close> and the Kelvin sign (U+212A, bytes E2 84 AA) for \<open>k\<close>.
\<close>

fun EqualFold :: "string \<Rightarrow> string \<Rightarrow> bool" where
  "EqualFold [] t = (t = [])"
| "EqualFold (c # cs) t =
     (case t of
        [] \<Rightarrow> False
      | d # ds \<Rightarrow>
          if ascii_lower d = ascii_lower c then EqualFold cs ds
          else if ascii_lower c = CHR ''s'' \<and> take 2 t = [CHR 0xC5, CHR 0xBF]
            then EqualFold cs (drop 2 t)
          else if ascii_lower c = CHR ''k'' \<and> take 3 t = [CHR 0xE2, CHR 0x84, CHR 0xAA]
            then EqualFold cs (drop 3 t)
          else False)"

definition fieldByName :: "string \<Rightarrow> Field option" where
  "fieldByName name =
     (case find (\<lambda>f. field_name f = name) userFields of
        Some f \<Rightarrow> Some f
      | None \<Rightarrow> find (\<lambda>f. EqualFold (field_name f) name) userFields)"

fun decodeString :: "AttributeValue \<Rightarrow> string option" where
  "decodeString (AV_S v) = Some v"
| "decodeString (AV_NULL b) = Some []"
| "decodeString (AV_BOOL b) = None"

fun decodeMap :: "Item \<Rightarrow> User \<Rightarrow> User option" where
  "decodeMap [] out = Some out"
| "decodeMap ((k, av) # m) out =
     (case fieldByName k of
        None \<Rightarrow> decodeMap m out
      | Some f \<Rightarrow>
          (case decodeString av of
             None \<Rightarrow> None
           | Some v \<Rightarrow> decodeMap m (set_field f v out)))"

text \<open>A nil map (\<open>None\<close>) decodes like an empty one. \<open>None\<close> as result is the decoding error.\<close>

definition UnmarshalMap :: "Item option \<Rightarrow> User \<Rightarrow> User option" where
  "UnmarshalMap m out = decodeMap (case m of None \<Rightarrow> [] | Some i \<Rightarrow> i) out"

fun UnmarshalListOfMaps :: "Item list \<Rightarrow> User list option" where
  "UnmarshalListOfMaps [] = Some []"
| "UnmarshalListOfMaps (m # ms) =
     (case UnmarshalMap (Some m) zeroUser of
        None \<Rightarrow> None
      | Some u \<Rightarrow>
          (case UnmarshalListOfMaps ms of None \<Rightarrow> None | Some us \<Rightarrow> Some (u # us)))"

section \<open>The backend client\<close>

text \<open>
  The storage functions receive the client as an argument
  (\<^verbatim>\<open>dynamodbiface.DynamoDBAPI\<close>). It is a record of the five operations the program
  calls, each over a backend state \<open>'s\<close> that it returns updated. A backend error is one of
  the SDK's error types; the program tells \<^verbatim>\<open>ConditionalCheckFailedException\<close> from all
  others.
\<close>

datatype awserr = ConditionalCheckFailedException | ValidationException | InternalServerError

record GetItemInput =
  gi_TableName :: string
  gi_Key :: Item

record GetItemOutput =
  go_Item :: "Item option"

record ScanInput =
  si_TableName :: string
  si_ExclusiveStartKey :: "Item option"

record ScanOutput =
  so_Items :: "Item list"
  so_LastEvaluatedKey :: "Item option"

record PutItemInput =
  pi_TableName :: string
  pi_Item :: Item
  pi_ConditionExpression :: "string option"

record UpdateItemInput =
  ui_TableName :: string
  ui_Key :: Item
  ui_UpdateExpression :: "string option"
  ui_ConditionExpression :: "string option"
  ui_ExpressionAttributeValues :: Item
  ui_ReturnValues :: "string option"

record UpdateItemOutput =
  uo_Attributes :: "Item option"

record DeleteItemInput =
  di_TableName :: string
  di_Key :: Item
  di_ConditionExpression :: "string option"

record 's DynamoDBAPI =
  GetItem :: "GetItemInput \<Rightarrow> 's \<Rightarrow> (awserr + GetItemOutput) \<times> 's"
  Scan :: "ScanInput \<Rightarrow> 's \<Rightarrow> (awserr + ScanOutput) \<times> 's"
  PutItem :: "PutItemInput \<Rightarrow> 's \<Rightarrow> (awserr + unit) \<times> 's"
  UpdateItem :: "UpdateItemInput \<Rightarrow> 's \<Rightarrow> (awserr + UpdateItemOutput) \<times> 's"
  DeleteItem :: "DeleteItemInput \<Rightarrow> 's \<Rightarrow> (awserr + unit) \<times> 's"

section \<open>The request, and the library calls taken as parameters\<close>

record APIGatewayProxyRequest =
  PathParameters :: "string \<rightharpoonup> string"
  Body :: string

text \<open>
  What a handler hands to the response builder: a record, a list of records, an error
  body, a plain string, or nil.
\<close>

datatype Payload =
  PUser User | PUsers "User list" | PErrorBody "string option" | PString string | PNil

text \<open>
  \<^verbatim>\<open>json.Unmarshal\<close> into an empty \<^verbatim>\<open>User\<close>, \<^verbatim>\<open>mail.ParseAddress\<close> and
  \<^verbatim>\<open>json.Marshal\<close> are library functions. They are parameters of the model:
  \<open>json_Unmarshal\<close> gives the decoded record or \<open>None\<close> for a body it rejects,
  \<open>mail_ParseAddress\<close> says whether the address parses.
\<close>

record Lib =
  json_Unmarshal :: "string \<Rightarrow> User option"
  mail_ParseAddress :: "string \<Rightarrow> bool"
  json_Marshal :: "Payload \<Rightarrow> string"

section \<open>The storage access layer\<close>

definition FetchUser ::
  "string \<Rightarrow> string \<Rightarrow> 's DynamoDBAPI \<Rightarrow> 's \<Rightarrow> (string + User) \<times> 's" where
  "FetchUser email tableName dynaClient s =
     (let input = \<lparr>gi_TableName = tableName, gi_Key = [(''email'', AV_S email)]\<rparr> in
      case GetItem dynaClient input s of
        (Inl err, s') \<Rightarrow> (Inl ErrorFailedToFetchRecord, s')
      | (Inr result, s') \<Rightarrow>
          (case UnmarshalMap (go_Item result) zeroUser of
             None \<Rightarrow> (Inl ErrorFailedToUnmarshalRecord, s')
           | Some item \<Rightarrow> (Inr item, s')))"

text \<open>
  The scan loop of \<^verbatim>\<open>FetchUsers\<close>. Nothing in the program bounds the number of pages, so
  the loop is a partial function: \<open>None\<close> is a scan that never ends.
\<close>

partial_function (option) FetchUsers_loop ::
  "'s DynamoDBAPI \<Rightarrow> ScanInput \<Rightarrow> User list \<Rightarrow> 's \<Rightarrow> ((string + User list) \<times> 's) option" where
  "FetchUsers_loop dynaClient input users s =
     (case Scan dynaClient input s of
        (Inl err, s') \<Rightarrow> Some (Inl ErrorFailedToFetchRecord, s')
      | (Inr result, s') \<Rightarrow>
          (case UnmarshalListOfMaps (so_Items result) of
             None \<Rightarrow> Some (Inl ErrorFailedToUnmarshalRecord, s')
           | Some items \<Rightarrow>
               (case so_LastEvaluatedKey result of
                  Some k \<Rightarrow>
                    FetchUsers_loop dynaClient
                      (input\<lparr>si_ExclusiveStartKey := Some k\<rparr>) (users @ items) s'
                | None \<Rightarrow> Some (Inr (users @ items), s'))))"

definition FetchUsers ::
  "string \<Rightarrow> 's DynamoDBAPI \<Rightarrow> 's \<Rightarrow> ((string + User list) \<times> 's) option" where
  "FetchUsers tableName dynaClient s =
     FetchUsers_loop dynaClient
       \<lparr>si_TableName = tableName, si_ExclusiveStartKey = None\<rparr> [] s"

text \<open>
  \<^verbatim>\<open>CreateUser\<close> also prints the backend's error before it returns
  \<^verbatim>\<open>ErrorCouldNotPutItem\<close>; the print changes no result and is left out.
\<close>

definition CreateUser ::
  "Lib \<Rightarrow> APIGatewayProxyRequest \<Rightarrow> string \<Rightarrow> 's DynamoDBAPI \<Rightarrow> 's \<Rightarrow> (string + User) \<times> 's" where
  "CreateUser lib req tableName dynaClient s =
     (case json_Unmarshal lib (Body req) of
        None \<Rightarrow> (Inl ErrorInvalidUserData, s)
      | Some user \<Rightarrow>
          if \<not> mail_ParseAddress lib (Email user) then (Inl ErrorInvalidEmail, s)
          else
            (case MarshalMap user of
               None \<Rightarrow> (Inl ErrorCouldNotMarshalItem, s)
             | Some item \<Rightarrow>
                 (let input = \<lparr>pi_TableName = tableName, pi_Item = item,
                        pi_ConditionExpression = Some ''attribute_not_exists(email)''\<rparr> in
                  case PutItem dynaClient input s of
                    (Inl err, s') \<Rightarrow>
                      (case err of
                         ConditionalCheckFailedException \<Rightarrow> (Inl ErrorUserAlreadyExists, s')
                       | _ \<Rightarrow> (Inl ErrorCouldNotPutItem, s'))
                  | (Inr out, s') \<Rightarrow> (Inr user, s'))))"

definition updateExpressionPart :: "string \<Rightarrow> string" where
  "updateExpressionPart fieldName = fieldName @ '' = :'' @ fieldName"

fun strings_Join :: "string list \<Rightarrow> string \<Rightarrow> string" where
  "strings_Join [] sep = []"
| "strings_Join [x] sep = x"
| "strings_Join (x # y # ys) sep = x @ sep @ strings_Join (y # ys) sep"

definition UpdateUser ::
  "Lib \<Rightarrow> APIGatewayProxyRequest \<Rightarrow> string \<Rightarrow> 's DynamoDBAPI \<Rightarrow> 's \<Rightarrow> (string + User) \<times> 's" where
  "UpdateUser lib req tableName dynaClient s =
     (case json_Unmarshal lib (Body req) of
        None \<Rightarrow> (Inl ErrorInvalidUserData, s)
      | Some user \<Rightarrow>
          (case MarshalMap user of
             None \<Rightarrow> (Inl ErrorCouldNotMarshalItem, s)
           | Some item \<Rightarrow>
               (let updates = [];
                    updates = (if FirstName user \<noteq> []
                               then updates @ [updateExpressionPart ''fieldName''] else updates);
                    updates = (if LastName user \<noteq> []
                               then updates @ [updateExpressionPart ''lastName''] else updates);
                    input = \<lparr>ui_TableName = tableName, ui_Key = item,
                      ui_UpdateExpression = Some (''SET '' @ strings_Join updates '', ''),
                      ui_ConditionExpression = Some ''attribute_exists(email)'',
                      ui_ExpressionAttributeValues = item,
                      ui_ReturnValues = Some ''ALL_NEW''\<rparr> in
                case UpdateItem dynaClient input s of
                  (Inl err, s') \<Rightarrow>
                    (case err of
                       ConditionalCheckFailedException \<Rightarrow> (Inl ErrorUserDoesNotExist, s')
                     | _ \<Rightarrow> (Inl ErrorCouldNotPutItem, s'))
                | (Inr result, s') \<Rightarrow>
                    (case UnmarshalMap (uo_Attributes result) user of
                       None \<Rightarrow> (Inl ErrorFailedToUnmarshalRecord, s')
                     | Some user' \<Rightarrow> (Inr user', s')))))"

text \<open>\<^verbatim>\<open>DeleteUser\<close> returns only an error: \<open>None\<close> is Go's nil.\<close>

definition DeleteUser ::
  "Lib \<Rightarrow> APIGatewayProxyRequest \<Rightarrow> string \<Rightarrow> 's DynamoDBAPI \<Rightarrow> 's \<Rightarrow> string option \<times> 's" where
  "DeleteUser lib req tableName dynaClient s =
     (case json_Unmarshal lib (Body req) of
        None \<Rightarrow> (Some ErrorInvalidUserData, s)
      | Some user \<Rightarrow>
          (case MarshalMap user of
             None \<Rightarrow> (Some ErrorCouldNotMarshalItem, s)
           | Some item \<Rightarrow>
               (let input = \<lparr>di_TableName = tableName, di_Key = item,
                      di_ConditionExpression = Some ''attribute_exists(email)''\<rparr> in
                case DeleteItem dynaClient input s of
                  (Inl err, s') \<Rightarrow>
                    (case err of
                       ConditionalCheckFailedException \<Rightarrow> (Some ErrorUserDoesNotExist, s')
                     | _ \<Rightarrow> (Some ErrorCouldNotDeleteItem, s'))
                | (Inr out, s') \<Rightarrow> (None, s'))))"

section \<open>The request dispatch layer\<close>

record APIGatewayProxyResponse =
  StatusCode :: int
  ResponseBody :: string

definition StatusOK :: int where
  "StatusOK = 200"

definition StatusCreated :: int where
  "StatusCreated = 201"

definition StatusNoContent :: int where
  "StatusNoContent = 204"

definition StatusMethodNotAllowed :: int where
  "StatusMethodNotAllowed = 405"

definition StatusInternalServerError :: int where
  "StatusInternalServerError = 500"

lemmas status_defs =
  StatusOK_def StatusCreated_def StatusNoContent_def StatusMethodNotAllowed_def
  StatusInternalServerError_def

definition ErrorMethodNotAllowed :: string where
  "ErrorMethodNotAllowed = ''Method not allowed''"

text \<open>
  Modelled from the spec: \<^verbatim>\<open>apiResponse\<close>, the helper every handler ends in, is not among
  the sources. The spec gives the response envelope as
  \<^verbatim>\<open>{ statusCode: int, body: <JSON-encoded result or {error: string}> }\<close>: the status
  is the one the handler passes, the body is the JSON encoding of the value it passes.
\<close>

definition apiResponse :: "Lib \<Rightarrow> int \<Rightarrow> Payload \<Rightarrow> APIGatewayProxyResponse" where
  "apiResponse lib status body = \<lparr>StatusCode = status, ResponseBody = json_Marshal lib body\<rparr>"

text \<open>
  The handlers of \<^verbatim>\<open>pkg/handlers/handlers.go\<close>. They carry the names of the storage
  functions they call, so here they have the package name in front.
  \<^verbatim>\<open>ErrorBody{aws.String(err.Error())}\<close> is the error body with its message set.
\<close>

definition handlers_GetUser ::
  "Lib \<Rightarrow> APIGatewayProxyRequest \<Rightarrow> string \<Rightarrow> 's DynamoDBAPI \<Rightarrow> 's
     \<Rightarrow> (APIGatewayProxyResponse \<times> 's) option" where
  "handlers_GetUser lib req tableName dynaClient s =
     (let email = (case PathParameters req ''email'' of None \<Rightarrow> [] | Some e \<Rightarrow> e) in
      if length email > 0 then
        (case FetchUser email tableName dynaClient s of
           (Inl err, s') \<Rightarrow>
             Some (apiResponse lib StatusInternalServerError (PErrorBody (Some err)), s')
         | (Inr result, s') \<Rightarrow> Some (apiResponse lib StatusOK (PUser result), s'))
      else
        (case FetchUsers tableName dynaClient s of
           None \<Rightarrow> None
         | Some (Inl err, s') \<Rightarrow>
             Some (apiResponse lib StatusInternalServerError (PErrorBody (Some err)), s')
         | Some (Inr result, s') \<Rightarrow> Some (apiResponse lib StatusOK (PUsers result), s')))"

definition handlers_CreateUser ::
  "Lib \<Rightarrow> APIGatewayProxyRequest \<Rightarrow> string \<Rightarrow> 's DynamoDBAPI \<Rightarrow> 's
     \<Rightarrow> APIGatewayProxyResponse \<times> 's" where
  "handlers_CreateUser lib req tableName dynaClient s =
     (case CreateUser lib req tableName dynaClient s of
        (Inl err, s') \<Rightarrow> (apiResponse lib StatusInternalServerError (PErrorBody (Some err)), s')
      | (Inr result, s') \<Rightarrow> (apiResponse lib StatusCreated (PUser result), s'))"

definition handlers_UpdateUser ::
  "Lib \<Rightarrow> APIGatewayProxyRequest \<Rightarrow> string \<Rightarrow> 's DynamoDBAPI \<Rightarrow> 's
     \<Rightarrow> APIGatewayProxyResponse \<times> 's" where
  "handlers_UpdateUser lib req tableName dynaClient s =
     (case UpdateUser lib req tableName dynaClient s of
        (Inl err, s') \<Rightarrow> (apiResponse lib StatusInternalServerError (PErrorBody (Some err)), s')
      | (Inr result, s') \<Rightarrow> (apiResponse lib StatusCreated (PUser result), s'))"

definition handlers_DeleteUser ::
  "Lib \<Rightarrow> APIGatewayProxyRequest \<Rightarrow> string \<Rightarrow> 's DynamoDBAPI \<Rightarrow> 's
     \<Rightarrow> APIGatewayProxyResponse \<times> 's" where
  "handlers_DeleteUser lib req tableName dynaClient s =
     (case DeleteUser lib req tableName dynaClient s of
        (Some err, s') \<Rightarrow> (apiResponse lib StatusInternalServerError (PErrorBody (Some err)), s')
      | (None, s') \<Rightarrow> (apiResponse lib StatusNoContent PNil, s'))"

definition UnhandledMethod :: "Lib \<Rightarrow> APIGatewayProxyResponse" where
  "UnhandledMethod lib = apiResponse lib StatusMethodNotAllowed (PString ErrorMethodNotAllowed)"

text \<open>
  Modelled from the spec: the entry point that reads the operation selector and picks the
  handler is not among the sources. The spec's dispatch layer names four operations,
  Fetch, Create, Update and Delete, each bound to its handler, and answers any other
  selector through the unrecognized-operation response.
\<close>

datatype Operation = OpFetch | OpCreate | OpUpdate | OpDelete | OpUnrecognized string

fun dispatch ::
  "Lib \<Rightarrow> Operation \<Rightarrow> APIGatewayProxyRequest \<Rightarrow> string \<Rightarrow> 's DynamoDBAPI \<Rightarrow> 's
     \<Rightarrow> (APIGatewayProxyResponse \<times> 's) option" where
  "dispatch lib OpFetch req tableName dynaClient s =
     handlers_GetUser lib req tableName dynaClient s"
| "dispatch lib OpCreate req tableName dynaClient s =
     Some (handlers_CreateUser lib req tableName dynaClient s)"
| "dispatch lib OpUpdate req tableName dynaClient s =
     Some (handlers_UpdateUser lib req tableName dynaClient s)"
| "dispatch lib OpDelete req tableName dynaClient s =
     Some (handlers_DeleteUser lib req tableName dynaClient s)"
| "dispatch lib (OpUnrecognized m) req tableName dynaClient s =
     Some (UnhandledMethod lib, s)"

section \<open>A reference backend\<close>

text \<open>
  What the store holds after a call is a matter of the backend. This one is a single
  table whose primary key is the string attribute \<^verbatim>\<open>email\<close>, kept as the list of its items
  in scan order, with the number of items a scan page holds. It follows the store's
  documented behaviour: a request key must be exactly the key attribute (anything else is
  a validation error), an item must carry a non-empty string key, a condition is checked
  against the stored item of that key, and a scan page ends with the key of its last item
  as continuation token while items remain.
\<close>

record Table =
  tbl_items :: "Item list"
  tbl_page_limit :: nat

fun key_of_Key :: "Item \<Rightarrow> string option" where
  "key_of_Key [(n, AV_S e)] = (if n = ''email'' \<and> e \<noteq> [] then Some e else None)"
| "key_of_Key k = None"

definition key_of_item :: "Item \<Rightarrow> string option" where
  "key_of_item it =
     (case map_of it ''email'' of
        Some (AV_S e) \<Rightarrow> if e \<noteq> [] then Some e else None
      | _ \<Rightarrow> None)"

definition lookup_item :: "Item list \<Rightarrow> string \<Rightarrow> Item option" where
  "lookup_item items e = find (\<lambda>it. key_of_item it = Some e) items"

definition eval_condition :: "string option \<Rightarrow> Item option \<Rightarrow> bool option" where
  "eval_condition cond existing =
     (let has_email = (case existing of None \<Rightarrow> False | Some it \<Rightarrow> map_of it ''email'' \<noteq> None) in
      case cond of
        None \<Rightarrow> Some True
      | Some c \<Rightarrow>
          if c = ''attribute_exists(email)'' then Some has_email
          else if c = ''attribute_not_exists(email)'' then Some (\<not> has_email)
          else None)"

definition store_item :: "Item list \<Rightarrow> string \<Rightarrow> Item \<Rightarrow> Item list" where
  "store_item items e item =
     (if lookup_item items e = None then items @ [item]
      else map (\<lambda>it. if key_of_item it = Some e then item else it) items)"

definition items_after :: "string \<Rightarrow> Item list \<Rightarrow> Item list" where
  "items_after e items = tl (dropWhile (\<lambda>it. key_of_item it \<noteq> Some e) items)"

definition dyn_GetItem :: "GetItemInput \<Rightarrow> Table \<Rightarrow> (awserr + GetItemOutput) \<times> Table" where
  "dyn_GetItem input t =
     (case key_of_Key (gi_Key input) of
        None \<Rightarrow> (Inl ValidationException, t)
      | Some e \<Rightarrow> (Inr \<lparr>go_Item = lookup_item (tbl_items t) e\<rparr>, t))"

definition dyn_PutItem :: "PutItemInput \<Rightarrow> Table \<Rightarrow> (awserr + unit) \<times> Table" where
  "dyn_PutItem input t =
     (case key_of_item (pi_Item input) of
        None \<Rightarrow> (Inl ValidationException, t)
      | Some e \<Rightarrow>
          (case eval_condition (pi_ConditionExpression input) (lookup_item (tbl_items t) e) of
             None \<Rightarrow> (Inl ValidationException, t)
           | Some False \<Rightarrow> (Inl ConditionalCheckFailedException, t)
           | Some True \<Rightarrow>
               (Inr (), t\<lparr>tbl_items := store_item (tbl_items t) e (pi_Item input)\<rparr>)))"

definition dyn_DeleteItem :: "DeleteItemInput \<Rightarrow> Table \<Rightarrow> (awserr + unit) \<times> Table" where
  "dyn_DeleteItem input t =
     (case key_of_Key (di_Key input) of
        None \<Rightarrow> (Inl ValidationException, t)
      | Some e \<Rightarrow>
          (case eval_condition (di_ConditionExpression input) (lookup_item (tbl_items t) e) of
             None \<Rightarrow> (Inl ValidationException, t)
           | Some False \<Rightarrow> (Inl ConditionalCheckFailedException, t)
           | Some True \<Rightarrow>
               (Inr (), t\<lparr>tbl_items := filter (\<lambda>it. key_of_item it \<noteq> Some e) (tbl_items t)\<rparr>)))"

definition dyn_Scan :: "ScanInput \<Rightarrow> Table \<Rightarrow> (awserr + ScanOutput) \<times> Table" where
  "dyn_Scan input t =
     (case (case si_ExclusiveStartKey input of
              None \<Rightarrow> Some (tbl_items t)
            | Some k \<Rightarrow>
                (case key_of_Key k of
                   None \<Rightarrow> None
                 | Some e \<Rightarrow> Some (items_after e (tbl_items t)))) of
        None \<Rightarrow> (Inl ValidationException, t)
      | Some rest \<Rightarrow>
          (let page = take (tbl_page_limit t) rest in
           if drop (tbl_page_limit t) rest = [] then
             (Inr \<lparr>so_Items = page, so_LastEvaluatedKey = None\<rparr>, t)
           else if page = [] then
             (Inr \<lparr>so_Items = page, so_LastEvaluatedKey = si_ExclusiveStartKey input\<rparr>, t)
           else
             (case key_of_item (last page) of
                None \<Rightarrow> (Inl InternalServerError, t)
              | Some e \<Rightarrow>
                  (Inr \<lparr>so_Items = page,
                        so_LastEvaluatedKey = Some [(''email'', AV_S e)]\<rparr>, t))))"

text \<open>
  The client over a table. No property below needs the store's reading of an update expression,
  so \<open>UpdateItem\<close> stays a parameter.
\<close>

definition dynamo ::
  "(UpdateItemInput \<Rightarrow> Table \<Rightarrow> (awserr + UpdateItemOutput) \<times> Table) \<Rightarrow> Table DynamoDBAPI" where
  "dynamo upd =
     \<lparr>GetItem = dyn_GetItem, Scan = dyn_Scan, PutItem = dyn_PutItem,
      UpdateItem = upd, DeleteItem = dyn_DeleteItem\<rparr>"

text \<open>
  A table is well formed when every item is a map (no attribute name twice) with a key,
  and no two items share a key.
\<close>

definition wf_table :: "Table \<Rightarrow> bool" where
  "wf_table t \<longleftrightarrow>
     list_all (\<lambda>it. distinct (map fst it)) (tbl_items t) \<and>
     list_all (\<lambda>it. key_of_item it \<noteq> None) (tbl_items t) \<and>
     distinct (map key_of_item (tbl_items t))"

text \<open>
  The continuation token the reference backend hands out after the items \<open>pre\<close>: the key
  of the last of them.
\<close>

definition token_after :: "Item list \<Rightarrow> Item option" where
  "token_after pre =
     (if pre = [] then None
      else (case key_of_item (last pre) of None \<Rightarrow> None | Some e \<Rightarrow> Some [(''email'', AV_S e)]))"

section \<open>A backend that serves its contents in pages\<close>




section \<open>Observing the calls a function makes\<close>

text \<open>
  What a storage function sends to the backend is read off a client that passes every
  call on to another client and appends the call's input to a log.
\<close>

datatype Call =
  CallGetItem GetItemInput | CallScan ScanInput | CallPutItem PutItemInput
| CallUpdateItem UpdateItemInput | CallDeleteItem DeleteItemInput

definition recording :: "'s DynamoDBAPI \<Rightarrow> ('s \<times> Call list) DynamoDBAPI" where
  "recording c =
     \<lparr>GetItem =
        (\<lambda>i (s, log). case GetItem c i s of (r, s') \<Rightarrow> (r, (s', log @ [CallGetItem i]))),
      Scan =
        (\<lambda>i (s, log). case Scan c i s of (r, s') \<Rightarrow> (r, (s', log @ [CallScan i]))),
      PutItem =
        (\<lambda>i (s, log). case PutItem c i s of (r, s') \<Rightarrow> (r, (s', log @ [CallPutItem i]))),
      UpdateItem =
        (\<lambda>i (s, log). case UpdateItem c i s of (r, s') \<Rightarrow> (r, (s', log @ [CallUpdateItem i]))),
      DeleteItem =
        (\<lambda>i (s, log). case DeleteItem c i s of (r, s') \<Rightarrow> (r, (s', log @ [CallDeleteItem i])))\<rparr>"

section \<open>Sample inputs\<close>

text \<open>
  Concrete requests, tables and library functions at which the theorems below are
  instantiated. The sample decoder knows three request bodies, the sample address check
  accepts the addresses of the sample users, and the encoder stays a parameter.
\<close>

definition body_a :: string where
  \<open>body_a = ''{"email":"a@x.com","firstName":"A"}''\<close>

definition body_a_key :: string where
  \<open>body_a_key = ''{"email":"a@x.com"}''\<close>

definition body_bad :: string where
  \<open>body_bad = ''{"email":"not-an-email"}''\<close>

definition user_a :: User where
  "user_a = \<lparr>Email = ''a@x.com'', FirstName = ''A'', LastName = []\<rparr>"

definition user_a_key :: User where
  "user_a_key = \<lparr>Email = ''a@x.com'', FirstName = [], LastName = []\<rparr>"

definition user_bad :: User where
  "user_bad = \<lparr>Email = ''not-an-email'', FirstName = [], LastName = []\<rparr>"

definition user_b :: User where
  "user_b = \<lparr>Email = ''b@x.com'', FirstName = ''B'', LastName = ''Bee''\<rparr>"

definition user_c :: User where
  "user_c = \<lparr>Email = ''c@x.com'', FirstName = [], LastName = ''Cee''\<rparr>"

definition sample_lib :: "(Payload \<Rightarrow> string) \<Rightarrow> Lib" where
  "sample_lib enc =
     \<lparr>json_Unmarshal = map_of [(body_a, user_a), (body_a_key, user_a_key), (body_bad, user_bad)],
      mail_ParseAddress = (\<lambda>e. e \<in> set [''a@x.com'', ''b@x.com'', ''c@x.com'']),
      json_Marshal = enc\<rparr>"

definition sample_request :: "string \<Rightarrow> APIGatewayProxyRequest" where
  "sample_request body = \<lparr>PathParameters = Map.empty, Body = body\<rparr>"

definition no_update :: "UpdateItemInput \<Rightarrow> Table \<Rightarrow> (awserr + UpdateItemOutput) \<times> Table" where
  "no_update input t = (Inl ValidationException, t)"

definition item_a :: Item where
  "item_a = [(''email'', AV_S ''a@x.com''), (''firstName'', AV_S ''A''), (''lastName'', AV_NULL True)]"

definition item_b :: Item where
  "item_b = [(''email'', AV_S ''b@x.com''), (''firstName'', AV_S ''B''), (''lastName'', AV_S ''Bee'')]"

definition item_c :: Item where
  "item_c = [(''email'', AV_S ''c@x.com''), (''firstName'', AV_NULL True), (''lastName'', AV_S ''Cee'')]"

definition item_odd :: Item where
  "item_odd = [(''email'', AV_S ''a@x.com''), (''firstName'', AV_BOOL True)]"

definition empty_table :: Table where
  "empty_table = \<lparr>tbl_items = [], tbl_page_limit = 2\<rparr>"

definition table_a :: Table where
  "table_a = \<lparr>tbl_items = [item_a], tbl_page_limit = 2\<rparr>"

definition table_abc :: Table where
  "table_abc = \<lparr>tbl_items = [item_a, item_b, item_c], tbl_page_limit = 2\<rparr>"

definition table_odd :: Table where
  "table_odd = \<lparr>tbl_items = [item_odd], tbl_page_limit = 2\<rparr>"








lemmas sample_defs =
  user_a_def user_a_key_def user_bad_def user_b_def user_c_def sample_request_def
  no_update_def item_a_def item_b_def item_c_def item_odd_def
  empty_table_def table_a_def table_abc_def table_odd_def

section \<open>Facts about the attribute marshaller and the reference backend\<close>

lemma fieldByName_exact:
  "fieldByName ''email'' = Some FEmail"
  "fieldByName ''firstName'' = Some FFirstName"
  "fieldByName ''lastName'' = Some FLastName"
  by (simp_all add: fieldByName_def userFields_def)

lemma key_of_item_marshalled:
  "key_of_item [(''email'', encodeString e), (''firstName'', f), (''lastName'', l)] =
     (if e = [] then None else Some e)"
  by (simp add: key_of_item_def encodeString_def)

lemma key_of_Key_marshalled:
  "key_of_Key [(''email'', a), (''firstName'', f), (''lastName'', l)] = None"
  by (cases a) simp_all

lemma key_of_item_nonempty: "key_of_item it = Some e \<Longrightarrow> e \<noteq> []"
  by (auto simp: key_of_item_def split: option.splits AttributeValue.splits if_splits)

lemma key_of_item_has_email: "key_of_item it = Some e \<Longrightarrow> map_of it ''email'' \<noteq> None"
  by (auto simp: key_of_item_def split: option.splits)

lemma lookup_item_SomeD:
  "lookup_item items e = Some it \<Longrightarrow> key_of_item it = Some e \<and> it \<in> set items"
  by (auto simp: lookup_item_def find_Some_iff)

lemma lookup_item_appended:
  "lookup_item items e = None \<Longrightarrow> key_of_item it = Some e \<Longrightarrow>
     lookup_item (items @ [it]) e = Some it"
  by (induction items) (auto simp: lookup_item_def split: if_splits)

lemma eval_not_exists:
  "eval_condition (Some ''attribute_not_exists(email)'') (lookup_item items e) =
     Some (lookup_item items e = None)"
  by (cases "lookup_item items e")
     (auto simp: eval_condition_def dest!: lookup_item_SomeD key_of_item_has_email)

lemma UnmarshalMap_marshalled:
  "MarshalMap u = Some item \<Longrightarrow> UnmarshalMap (Some item) out = Some u"
  by (cases out)
     (auto simp: MarshalMap_def UnmarshalMap_def fieldByName_def userFields_def encodeString_def)

lemma dyn_PutItem_new:
  assumes "MarshalMap u = Some item" and "Email u \<noteq> []"
  shows "dyn_PutItem \<lparr>pi_TableName = tn, pi_Item = item,
            pi_ConditionExpression = Some ''attribute_not_exists(email)''\<rparr> t =
         (if lookup_item (tbl_items t) (Email u) = None
          then (Inr (), t\<lparr>tbl_items := tbl_items t @ [item]\<rparr>)
          else (Inl ConditionalCheckFailedException, t))"
proof -
  have key: "key_of_item item = Some (Email u)"
    using assms by (auto simp: MarshalMap_def key_of_item_marshalled)
  show ?thesis
    unfolding dyn_PutItem_def
    using eval_not_exists [of "tbl_items t" "Email u"]
    by (cases "lookup_item (tbl_items t) (Email u)") (simp_all add: key store_item_def)
qed

lemma dyn_GetItem_email:
  "e \<noteq> [] \<Longrightarrow> dyn_GetItem \<lparr>gi_TableName = tn, gi_Key = [(''email'', AV_S e)]\<rparr> t =
     (Inr \<lparr>go_Item = lookup_item (tbl_items t) e\<rparr>, t)"
  by (simp add: dyn_GetItem_def)

lemma CreateUser_dynamo:
  assumes "json_Unmarshal lib (Body req) = Some u" and "mail_ParseAddress lib (Email u)"
    and "Email u \<noteq> []" and "MarshalMap u = Some item"
  shows "CreateUser lib req tn (dynamo upd) t =
         (if lookup_item (tbl_items t) (Email u) = None
          then (Inr u, t\<lparr>tbl_items := tbl_items t @ [item]\<rparr>)
          else (Inl ErrorUserAlreadyExists, t))"
  using assms by (simp add: CreateUser_def dynamo_def dyn_PutItem_new)

lemma FetchUser_dynamo_found:
  assumes "e \<noteq> []" and "lookup_item (tbl_items t) e = Some item" and "MarshalMap u = Some item"
  shows "FetchUser e tn (dynamo upd) t = (Inr u, t)"
  using assms by (simp add: FetchUser_def dynamo_def dyn_GetItem_email UnmarshalMap_marshalled)

subsection \<open>Scanning in pages\<close>

lemma UnmarshalListOfMaps_append:
  "UnmarshalListOfMaps (xs @ ys) =
     (case UnmarshalListOfMaps xs of
        None \<Rightarrow> None
      | Some a \<Rightarrow> (case UnmarshalListOfMaps ys of None \<Rightarrow> None | Some b \<Rightarrow> Some (a @ b)))"
  by (induction xs) (auto split: option.splits)

lemma UnmarshalListOfMaps_split:
  assumes "UnmarshalListOfMaps xs = Some us"
  obtains us1 us2 where "UnmarshalListOfMaps (take n xs) = Some us1"
    and "UnmarshalListOfMaps (drop n xs) = Some us2" and "us = us1 @ us2"
proof -
  have "UnmarshalListOfMaps (take n xs @ drop n xs) = Some us"
    using assms by simp
  then show ?thesis
    using that unfolding UnmarshalListOfMaps_append by (auto split: option.splits)
qed

lemma items_after_key:
  assumes "distinct (map key_of_item (pre @ x # rest))" and "key_of_item x = Some e"
  shows "items_after e (pre @ x # rest) = rest"
proof -
  have "\<And>y. y \<in> set pre \<Longrightarrow> key_of_item y \<noteq> Some e"
    using assms by (auto simp: image_iff) 
  then have "dropWhile (\<lambda>it. key_of_item it \<noteq> Some e) (pre @ x # rest) = x # rest"
    using assms(2) by (simp add: dropWhile_append2)
  then show ?thesis by (simp add: items_after_def)
qed

lemma dyn_Scan_resume:
  assumes wf: "wf_table t" and items: "tbl_items t = pre @ rest"
  shows "dyn_Scan \<lparr>si_TableName = tn, si_ExclusiveStartKey = token_after pre\<rparr> t =
    (let n = tbl_page_limit t; page = take n rest in
     if drop n rest = [] then (Inr \<lparr>so_Items = page, so_LastEvaluatedKey = None\<rparr>, t)
     else if page = [] then (Inr \<lparr>so_Items = page, so_LastEvaluatedKey = token_after pre\<rparr>, t)
     else (Inr \<lparr>so_Items = page, so_LastEvaluatedKey = token_after (pre @ page)\<rparr>, t))"
proof -
  have valid: "\<And>it. it \<in> set (tbl_items t) \<Longrightarrow> \<exists>e. key_of_item it = Some e"
    using wf by (auto simp: wf_table_def list_all_iff)
  have dist: "distinct (map key_of_item (pre @ rest))"
    using wf items by (simp add: wf_table_def)
  have start: "(case si_ExclusiveStartKey \<lparr>si_TableName = tn, si_ExclusiveStartKey = token_after pre\<rparr> of
              None \<Rightarrow> Some (tbl_items t)
            | Some k \<Rightarrow>
                (case key_of_Key k of
                   None \<Rightarrow> None
                 | Some e \<Rightarrow> Some (items_after e (tbl_items t)))) = Some rest"
  proof (cases "pre = []")
    case True
    then show ?thesis using items by (simp add: token_after_def)
  next
    case False
    then obtain pre' x where pre: "pre = pre' @ [x]"
      by (metis append_butlast_last_id)
    obtain e where e: "key_of_item x = Some e"
      using valid [of x] items pre by auto
    have "items_after e (tbl_items t) = rest"
      using items_after_key [of pre' x rest e] dist e items pre by simp
    then show ?thesis
      using e pre key_of_item_nonempty [OF e] by (simp add: token_after_def)
  qed
  show ?thesis
  proof (cases "drop (tbl_page_limit t) rest = [] \<or> take (tbl_page_limit t) rest = []")
    case True
    then show ?thesis
      unfolding dyn_Scan_def start by (auto simp: Let_def)
  next
    case False
    let ?page = "take (tbl_page_limit t) rest"
    have "last ?page \<in> set (tbl_items t)"
      using False items by (metis UnCI in_set_takeD last_in_set set_append)
    then obtain e where e: "key_of_item (last ?page) = Some e"
      using valid by blast
    have "token_after (pre @ ?page) = Some [(''email'', AV_S e)]"
      using False e by (simp add: token_after_def)
    then show ?thesis
      unfolding dyn_Scan_def start using False e by (simp add: Let_def)
  qed
qed

lemma FetchUsers_loop_dynamo:
  assumes wf: "wf_table t" and limit: "0 < tbl_page_limit t"
    and items: "tbl_items t = pre @ rest"
    and dec: "UnmarshalListOfMaps rest = Some us"
  shows "FetchUsers_loop (dynamo upd)
           \<lparr>si_TableName = tn, si_ExclusiveStartKey = token_after pre\<rparr> acc t =
         Some (Inr (acc @ us), t)"
  using items dec
proof (induction "length rest" arbitrary: pre rest acc us rule: less_induct)
  case less
  let ?n = "tbl_page_limit t"
  let ?page = "take ?n rest"
  obtain us1 us2 where us1: "UnmarshalListOfMaps ?page = Some us1"
    and us2: "UnmarshalListOfMaps (drop ?n rest) = Some us2" and us: "us = us1 @ us2"
    using UnmarshalListOfMaps_split [OF less.prems(2)] by blast
  note scan = dyn_Scan_resume [OF wf less.prems(1), of tn]
  show ?case
  proof (cases "drop ?n rest = []")
    case True
    then have "?page = rest" by simp
    then show ?thesis
      using True scan less.prems(2)
      by (subst FetchUsers_loop.simps) (simp add: dynamo_def Let_def)
  next
    case False
    then have ne: "?page \<noteq> []" using limit by auto
    have shorter: "length (drop ?n rest) < length rest"
      using False limit by auto
    have split: "tbl_items t = (pre @ ?page) @ drop ?n rest"
      using less.prems(1) by simp
    have "FetchUsers_loop (dynamo upd)
           \<lparr>si_TableName = tn, si_ExclusiveStartKey = token_after (pre @ ?page)\<rparr> (acc @ us1) t =
         Some (Inr ((acc @ us1) @ us2), t)"
      by (rule less.hyps [OF shorter split us2])
    moreover have "token_after (pre @ ?page) \<noteq> None"
    proof -
      have "last ?page \<in> set (tbl_items t)"
        using ne less.prems(1) by (metis UnCI in_set_takeD last_in_set set_append)
      then obtain e where "key_of_item (last ?page) = Some e"
        using wf by (auto simp: wf_table_def list_all_iff)
      then show ?thesis
        using ne by (simp add: token_after_def)
    qed
    ultimately show ?thesis
      using False ne scan us1 us
      by (subst FetchUsers_loop.simps) (auto simp: dynamo_def Let_def)
  qed
qed

lemma FetchUsers_plain:
  assumes "wf_table t" and "0 < tbl_page_limit t"
    and "UnmarshalListOfMaps (tbl_items t) = Some us"
  shows "FetchUsers tableName (dynamo upd) t = Some (Inr us, t)"
  using FetchUsers_loop_dynamo [OF assms(1,2), of "[]" "tbl_items t" us upd tableName "[]"] assms(3)
  by (simp add: FetchUsers_def token_after_def)




subsection \<open>What Update and Delete send\<close>

lemma encodeString_inject: "encodeString a = encodeString b \<longleftrightarrow> a = b"
  by (auto simp: encodeString_def)

lemma MarshalMap_inject: "MarshalMap u' = MarshalMap u \<longleftrightarrow> u' = u"
  by (cases u, cases u') (auto simp: MarshalMap_def encodeString_inject)

lemma UpdateUser_recorded:
  assumes "json_Unmarshal lib (Body req) = Some u"
  shows "snd (snd (UpdateUser lib req tn (recording c) (s, log))) =
     log @ [CallUpdateItem
       \<lparr>ui_TableName = tn,
        ui_Key = [(''email'', encodeString (Email u)),
                  (''firstName'', encodeString (FirstName u)),
                  (''lastName'', encodeString (LastName u))],
        ui_UpdateExpression =
          Some (''SET '' @ strings_Join
            ((if FirstName u \<noteq> [] then [''fieldName = :fieldName''] else []) @
             (if LastName u \<noteq> [] then [''lastName = :lastName''] else [])) '', ''),
        ui_ConditionExpression = Some ''attribute_exists(email)'',
        ui_ExpressionAttributeValues =
                 [(''email'', encodeString (Email u)),
                  (''firstName'', encodeString (FirstName u)),
                  (''lastName'', encodeString (LastName u))],
        ui_ReturnValues = Some ''ALL_NEW''\<rparr>]"
proof -
  let ?item = "[(''email'', encodeString (Email u)),
                  (''firstName'', encodeString (FirstName u)),
                  (''lastName'', encodeString (LastName u))]"
  let ?input = "\<lparr>ui_TableName = tn, ui_Key = ?item,
        ui_UpdateExpression =
          Some (''SET '' @ strings_Join
            ((if FirstName u \<noteq> [] then [''fieldName = :fieldName''] else []) @
             (if LastName u \<noteq> [] then [''lastName = :lastName''] else [])) '', ''),
        ui_ConditionExpression = Some ''attribute_exists(email)'',
        ui_ExpressionAttributeValues = ?item,
        ui_ReturnValues = Some ''ALL_NEW''\<rparr>"
  obtain r s' where call: "UpdateItem c ?input s = (r, s')"
    by (cases "UpdateItem c ?input s")
  have step: "UpdateItem (recording c) ?input (s, log) = (r, (s', log @ [CallUpdateItem ?input]))"
    using call by (simp add: recording_def)
  show ?thesis
    using assms step
    by (cases "FirstName u = []"; cases "LastName u = []")
       (auto simp: UpdateUser_def MarshalMap_def updateExpressionPart_def
         split: sum.splits awserr.splits option.splits)
qed

lemma DeleteUser_recorded:
  assumes "json_Unmarshal lib (Body req) = Some u"
  shows "snd (snd (DeleteUser lib req tn (recording c) (s, log))) =
     log @ [CallDeleteItem
       \<lparr>di_TableName = tn,
        di_Key = [(''email'', encodeString (Email u)),
                  (''firstName'', encodeString (FirstName u)),
                  (''lastName'', encodeString (LastName u))],
        di_ConditionExpression = Some ''attribute_exists(email)''\<rparr>]"
proof -
  let ?input = "\<lparr>di_TableName = tn,
        di_Key = [(''email'', encodeString (Email u)),
                  (''firstName'', encodeString (FirstName u)),
                  (''lastName'', encodeString (LastName u))],
        di_ConditionExpression = Some ''attribute_exists(email)''\<rparr>"
  obtain r s' where call: "DeleteItem c ?input s = (r, s')"
    by (cases "DeleteItem c ?input s")
  have step: "DeleteItem (recording c) ?input (s, log) = (r, (s', log @ [CallDeleteItem ?input]))"
    using call by (simp add: recording_def)
  show ?thesis
    using assms step
    by (simp add: DeleteUser_def MarshalMap_def split: sum.splits awserr.splits)
qed

subsection \<open>The sample inputs evaluated\<close>

lemma sample_parse:
  "json_Unmarshal (sample_lib enc) body_a = Some user_a"
  "json_Unmarshal (sample_lib enc) body_a_key = Some user_a_key"
  "json_Unmarshal (sample_lib enc) body_bad = Some user_bad"
  "mail_ParseAddress (sample_lib enc) ''a@x.com''"
  "\<not> mail_ParseAddress (sample_lib enc) ''not-an-email''"
  "json_Marshal (sample_lib enc) = enc"
  by (simp_all add: sample_lib_def body_a_def body_bad_def body_a_key_def)

lemma sample_marshal:
  "MarshalMap user_a = Some item_a"
  "MarshalMap user_b = Some item_b"
  "MarshalMap user_c = Some item_c"
  by (simp_all add: MarshalMap_def encodeString_def sample_defs)

lemma sample_keys:
  "key_of_item item_a = Some ''a@x.com''"
  "key_of_item item_b = Some ''b@x.com''"
  "key_of_item item_c = Some ''c@x.com''"
  "key_of_item item_odd = Some ''a@x.com''"
  by (simp_all add: key_of_item_def sample_defs)

lemma sample_wf: "wf_table table_abc" "wf_table table_a" "wf_table empty_table"
  by (simp_all add: wf_table_def table_abc_def table_a_def empty_table_def sample_keys)
     (simp_all add: item_a_def item_b_def item_c_def)

lemma sample_decode:
  "UnmarshalListOfMaps (tbl_items table_abc) = Some [user_a, user_b, user_c]"
  by (simp add: table_abc_def UnmarshalMap_marshalled [OF sample_marshal(1)]
      UnmarshalMap_marshalled [OF sample_marshal(2)] UnmarshalMap_marshalled [OF sample_marshal(3)])


lemma sample_fetch_a:
  "FetchUser ''a@x.com'' tn (dynamo upd) table_a = (Inr user_a, table_a)"
  by (rule FetchUser_dynamo_found [where item = item_a])
     (simp_all add: table_a_def lookup_item_def sample_keys sample_marshal)

lemma sample_create_a:
  "CreateUser (sample_lib enc) (sample_request body_a) tn (dynamo upd) empty_table =
     (Inr user_a, table_a)"
  using CreateUser_dynamo [of "sample_lib enc" "sample_request body_a" user_a item_a tn upd empty_table]
  by (simp add: sample_parse sample_marshal)
     (simp add: sample_request_def sample_parse user_a_def empty_table_def table_a_def
       lookup_item_def)

lemma sample_fetch_absent:
  "GetItem (dynamo upd) \<lparr>gi_TableName = tn, gi_Key = [(''email'', AV_S ''a@x.com'')]\<rparr>
     empty_table = (Inr \<lparr>go_Item = None\<rparr>, empty_table)"
  by (simp add: dynamo_def dyn_GetItem_def empty_table_def lookup_item_def)

lemma sample_fetch_odd:
  "FetchUser ''a@x.com'' tn (dynamo upd) table_odd = (Inl ''failed to unmarshal record'', table_odd)"
  by (simp add: FetchUser_def dynamo_def dyn_GetItem_def table_odd_def lookup_item_def
      key_of_item_def UnmarshalMap_def fieldByName_exact item_odd_def
      ErrorFailedToUnmarshalRecord_def)

lemma sample_scan_odd:
  "FetchUsers tn (dynamo upd) table_odd = Some (Inl ''failed to unmarshal record'', table_odd)"
  unfolding FetchUsers_def
  by (subst FetchUsers_loop.simps)
     (simp add: dynamo_def dyn_Scan_def table_odd_def UnmarshalMap_def fieldByName_exact
       item_odd_def ErrorFailedToUnmarshalRecord_def)

lemma sample_create_bad:
  "CreateUser (sample_lib enc) (sample_request body_bad) tn c s = (Inl ''invalid email'', s)"
  by (simp add: CreateUser_def sample_request_def sample_parse user_bad_def ErrorInvalidEmail_def)

lemma sample_update_a:
  "UpdateUser (sample_lib enc) (sample_request body_a) tn (dynamo no_update) t =
     (Inl ''could not put item'', t)"
  by (simp add: UpdateUser_def sample_request_def sample_parse MarshalMap_def dynamo_def
      no_update_def ErrorCouldNotPutItem_def)

lemma sample_delete_a:
  "DeleteUser (sample_lib enc) (sample_request body_a_key) tn (dynamo upd) t =
     (Some ''could not delete item'', t)"
  by (simp add: DeleteUser_def sample_request_def sample_parse MarshalMap_def dynamo_def
      dyn_DeleteItem_def key_of_Key_marshalled ErrorCouldNotDeleteItem_def)

section \<open>The claims\<close>

subsection \<open>Creating and fetching\<close>

text \<open>
  C3. Let the request body decode to a user \<open>u\<close> whose email the address parser accepts
  (so it is not empty), and let the table hold no record under that email. Then Create
  succeeds and returns \<open>u\<close>, and FetchOne with \<open>u\<close>'s email on the table Create leaves
  returns a user equal to \<open>u\<close>.
\<close>

theorem Create_then_FetchOne:
  assumes "json_Unmarshal lib (Body req) = Some u"
    and "mail_ParseAddress lib (Email u)"
    and "Email u \<noteq> []"
    and "lookup_item (tbl_items t) (Email u) = None"
  shows "\<exists>t'. CreateUser lib req tableName (dynamo upd) t = (Inr u, t') \<and>
              FetchUser (Email u) tableName (dynamo upd) t' = (Inr u, t')"
proof -
  obtain item where item: "MarshalMap u = Some item"
    by (simp add: MarshalMap_def)
  let ?t' = "t\<lparr>tbl_items := tbl_items t @ [item]\<rparr>"
  have key: "key_of_item item = Some (Email u)"
    using item assms(3) by (auto simp: MarshalMap_def key_of_item_marshalled)
  have "CreateUser lib req tableName (dynamo upd) t = (Inr u, ?t')"
    using assms item by (simp add: CreateUser_dynamo)
  moreover have "lookup_item (tbl_items ?t') (Email u) = Some item"
    using assms(4) key by (simp add: lookup_item_appended)
  then have "FetchUser (Email u) tableName (dynamo upd) ?t' = (Inr u, ?t')"
    using assms(3) item by (rule_tac FetchUser_dynamo_found) auto
  ultimately show ?thesis by blast
qed

theorem Create_then_FetchOne_witness:
  "\<forall>enc. json_Unmarshal (sample_lib enc) (Body (sample_request body_a)) = Some user_a \<and>
     mail_ParseAddress (sample_lib enc) (Email user_a) \<and>
     Email user_a \<noteq> [] \<and>
     lookup_item (tbl_items empty_table) (Email user_a) = None \<and>
     (\<exists>t'. CreateUser (sample_lib enc) (sample_request body_a) ''users'' (dynamo no_update)
              empty_table = (Inr user_a, t') \<and>
           FetchUser (Email user_a) ''users'' (dynamo no_update) t' = (Inr user_a, t'))"
proof
  fix enc
  have h1: "json_Unmarshal (sample_lib enc) (Body (sample_request body_a)) = Some user_a"
    by (simp add: sample_request_def sample_parse)
  have h2: "mail_ParseAddress (sample_lib enc) (Email user_a)"
    by (simp add: user_a_def sample_parse)
  have h3: "Email user_a \<noteq> []"
    by (simp add: user_a_def)
  have h4: "lookup_item (tbl_items empty_table) (Email user_a) = None"
    by (simp add: empty_table_def lookup_item_def)
  show "json_Unmarshal (sample_lib enc) (Body (sample_request body_a)) = Some user_a \<and>
     mail_ParseAddress (sample_lib enc) (Email user_a) \<and>
     Email user_a \<noteq> [] \<and>
     lookup_item (tbl_items empty_table) (Email user_a) = None \<and>
     (\<exists>t'. CreateUser (sample_lib enc) (sample_request body_a) ''users'' (dynamo no_update)
              empty_table = (Inr user_a, t') \<and>
           FetchUser (Email user_a) ''users'' (dynamo no_update) t' = (Inr user_a, t'))"
    using h1 h2 h3 h4 Create_then_FetchOne [OF h1 h2 h3 h4, of "''users''" no_update]
    by blast
qed

text \<open>
  C5. When a first Create has succeeded with user \<open>u\<close>, a second Create whose body decodes
  to a user of the same email fails with "user already exists" and leaves the table as
  the first call left it: the record of the first call is still the one stored under
  that email, and FetchOne returns \<open>u\<close>.
\<close>

theorem Create_twice_AlreadyExists:
  assumes first: "CreateUser lib req tableName (dynamo upd) t = (Inr u, t1)"
    and parse2: "json_Unmarshal lib (Body req2) = Some u2"
    and same: "Email u2 = Email u"
  shows "CreateUser lib req2 tableName (dynamo upd) t1 = (Inl ErrorUserAlreadyExists, t1) \<and>
         lookup_item (tbl_items t1) (Email u) = MarshalMap u \<and>
         FetchUser (Email u) tableName (dynamo upd) t1 = (Inr u, t1)"
proof -
  obtain item where item: "MarshalMap u = Some item"
    by (simp add: MarshalMap_def)
  obtain item2 where item2: "MarshalMap u2 = Some item2"
    by (simp add: MarshalMap_def)
  from first have parse: "json_Unmarshal lib (Body req) = Some u"
    and valid: "mail_ParseAddress lib (Email u)"
    by (auto simp: CreateUser_def
        split: option.splits if_splits prod.splits sum.splits awserr.splits)
  have nonempty: "Email u \<noteq> []"
  proof
    assume "Email u = []"
    then have "key_of_item item = None"
      using item by (auto simp: MarshalMap_def key_of_item_marshalled)
    then show False
      using first parse valid item
      by (simp add: CreateUser_def dynamo_def dyn_PutItem_def)
  qed
  have key: "key_of_item item = Some (Email u)"
    using item nonempty by (auto simp: MarshalMap_def key_of_item_marshalled)
  from first parse valid nonempty item
  have fresh: "lookup_item (tbl_items t) (Email u) = None"
    and t1: "t1 = t\<lparr>tbl_items := tbl_items t @ [item]\<rparr>"
    by (auto simp: CreateUser_dynamo split: if_splits)
  have found: "lookup_item (tbl_items t1) (Email u) = Some item"
    using fresh key t1 by (simp add: lookup_item_appended)
  have "CreateUser lib req2 tableName (dynamo upd) t1 = (Inl ErrorUserAlreadyExists, t1)"
    using parse2 same valid nonempty item2 found
    by (simp add: CreateUser_dynamo)
  moreover have "FetchUser (Email u) tableName (dynamo upd) t1 = (Inr u, t1)"
    using nonempty found item by (rule FetchUser_dynamo_found)
  ultimately show ?thesis using found item by simp
qed

theorem Create_twice_AlreadyExists_witness:
  "\<forall>enc. CreateUser (sample_lib enc) (sample_request body_a) ''users'' (dynamo no_update)
        empty_table = (Inr user_a, table_a) \<and>
     json_Unmarshal (sample_lib enc) (Body (sample_request body_a_key)) = Some user_a_key \<and>
     Email user_a_key = Email user_a \<and>
     CreateUser (sample_lib enc) (sample_request body_a_key) ''users'' (dynamo no_update) table_a =
       (Inl ''user already exists'', table_a) \<and>
     lookup_item (tbl_items table_a) ''a@x.com'' = Some item_a \<and>
     FetchUser ''a@x.com'' ''users'' (dynamo no_update) table_a = (Inr user_a, table_a)"
proof
  fix enc
  have h1: "CreateUser (sample_lib enc) (sample_request body_a) ''users'' (dynamo no_update)
        empty_table = (Inr user_a, table_a)"
    by (rule sample_create_a)
  have h2: "json_Unmarshal (sample_lib enc) (Body (sample_request body_a_key)) = Some user_a_key"
    by (simp add: sample_request_def sample_parse)
  have h3: "Email user_a_key = Email user_a"
    by (simp add: user_a_def user_a_key_def)
  have e: "Email user_a = ''a@x.com''"
    by (simp add: user_a_def)
  show "CreateUser (sample_lib enc) (sample_request body_a) ''users'' (dynamo no_update)
        empty_table = (Inr user_a, table_a) \<and>
     json_Unmarshal (sample_lib enc) (Body (sample_request body_a_key)) = Some user_a_key \<and>
     Email user_a_key = Email user_a \<and>
     CreateUser (sample_lib enc) (sample_request body_a_key) ''users'' (dynamo no_update) table_a =
       (Inl ''user already exists'', table_a) \<and>
     lookup_item (tbl_items table_a) ''a@x.com'' = Some item_a \<and>
     FetchUser ''a@x.com'' ''users'' (dynamo no_update) table_a = (Inr user_a, table_a)"
    using h1 h2 h3 Create_twice_AlreadyExists [OF h1 h2 h3]
    by (simp add: e sample_marshal ErrorUserAlreadyExists_def)
qed

text \<open>
  C6. When the request body decodes to a user whose email the address parser rejects,
  Create fails with "invalid email" and the backend state is the one it was given,
  whatever the client; under the recording client the log is unchanged too, so no
  operation of the backend was called.
\<close>

theorem CreateUser_invalid_email:
  assumes "json_Unmarshal lib (Body req) = Some user"
    and "\<not> mail_ParseAddress lib (Email user)"
  shows "CreateUser lib req tableName dynaClient s = (Inl ErrorInvalidEmail, s) \<and>
         CreateUser lib req tableName (recording dynaClient) (s, log) =
           (Inl ErrorInvalidEmail, (s, log))"
  using assms by (simp add: CreateUser_def)

theorem CreateUser_invalid_email_witness:
  "\<forall>enc. json_Unmarshal (sample_lib enc) (Body (sample_request body_bad)) = Some user_bad \<and>
     \<not> mail_ParseAddress (sample_lib enc) (Email user_bad) \<and>
     CreateUser (sample_lib enc) (sample_request body_bad) ''users'' (dynamo no_update) table_a =
       (Inl ''invalid email'', table_a) \<and>
     CreateUser (sample_lib enc) (sample_request body_bad) ''users''
       (recording (dynamo no_update)) (table_a, []) = (Inl ''invalid email'', (table_a, []))"
proof
  fix enc
  have h1: "json_Unmarshal (sample_lib enc) (Body (sample_request body_bad)) = Some user_bad"
    by (simp add: sample_request_def sample_parse)
  have h2: "\<not> mail_ParseAddress (sample_lib enc) (Email user_bad)"
    by (simp add: user_bad_def sample_parse)
  show "json_Unmarshal (sample_lib enc) (Body (sample_request body_bad)) = Some user_bad \<and>
     \<not> mail_ParseAddress (sample_lib enc) (Email user_bad) \<and>
     CreateUser (sample_lib enc) (sample_request body_bad) ''users'' (dynamo no_update) table_a =
       (Inl ''invalid email'', table_a) \<and>
     CreateUser (sample_lib enc) (sample_request body_bad) ''users''
       (recording (dynamo no_update)) (table_a, []) = (Inl ''invalid email'', (table_a, []))"
    using h1 h2
      CreateUser_invalid_email [OF h1 h2, of "''users''" "dynamo no_update" table_a "[]"]
    by (simp add: ErrorInvalidEmail_def)
qed

subsection \<open>Fetching all records\<close>



subsection \<open>Fetching a record that is not there\<close>

text \<open>
  C2. The specification asks for a not-found error; the code has no such branch. Whenever the
  backend's get succeeds and returns no item, FetchOne decodes the absent item into a
  fresh record and returns that record, all fields empty, as a success.
\<close>

theorem FetchUser_absent_returns_zero:
  assumes "GetItem dynaClient \<lparr>gi_TableName = tableName, gi_Key = [(''email'', AV_S email)]\<rparr> s =
             (Inr \<lparr>go_Item = None\<rparr>, s')"
  shows "FetchUser email tableName dynaClient s =
           (Inr \<lparr>Email = [], FirstName = [], LastName = []\<rparr>, s')"
  using assms by (simp add: FetchUser_def UnmarshalMap_def zeroUser_def)

theorem FetchUser_absent_returns_zero_witness:
  "GetItem (dynamo no_update) \<lparr>gi_TableName = ''users'', gi_Key = [(''email'', AV_S ''a@x.com'')]\<rparr>
     empty_table = (Inr \<lparr>go_Item = None\<rparr>, empty_table) \<and>
   lookup_item (tbl_items empty_table) ''a@x.com'' = None \<and>
   FetchUser ''a@x.com'' ''users'' (dynamo no_update) empty_table =
     (Inr \<lparr>Email = [], FirstName = [], LastName = []\<rparr>, empty_table)"
proof -
  have h: "GetItem (dynamo no_update)
      \<lparr>gi_TableName = ''users'', gi_Key = [(''email'', AV_S ''a@x.com'')]\<rparr> empty_table =
      (Inr \<lparr>go_Item = None\<rparr>, empty_table)"
    by (rule sample_fetch_absent)
  show ?thesis
    using h FetchUser_absent_returns_zero [OF h]
    by (simp add: empty_table_def lookup_item_def)
qed

subsection \<open>Update and Delete\<close>

text \<open>
  C1. The specification asks for an update expression over the fields \<^verbatim>\<open>firstName\<close> and
  \<^verbatim>\<open>lastName\<close>. For a body that decodes to a user with a non-empty first name, the
  expression the code sends starts with the assignment \<^verbatim>\<open>fieldName = :fieldName\<close>: the
  part for the first name is built from the literal \<^verbatim>\<open>"fieldName"\<close>, and no part names
  \<^verbatim>\<open>firstName\<close>.
\<close>

theorem UpdateUser_expression_names_fieldName:
  assumes "json_Unmarshal lib (Body req) = Some u" and "FirstName u \<noteq> []"
  shows "\<exists>input.
           snd (snd (UpdateUser lib req tableName (recording dynaClient) (s, log))) =
             log @ [CallUpdateItem input] \<and>
           ui_UpdateExpression input =
             Some (''SET fieldName = :fieldName'' @
                   (if LastName u \<noteq> [] then '', lastName = :lastName'' else []))"
  using UpdateUser_recorded [OF assms(1), of tableName dynaClient s log] assms(2)
  by auto

theorem UpdateUser_expression_names_fieldName_witness:
  "\<forall>enc. json_Unmarshal (sample_lib enc) (Body (sample_request body_a)) = Some user_a \<and>
     FirstName user_a \<noteq> [] \<and>
     (\<exists>input.
        snd (snd (UpdateUser (sample_lib enc) (sample_request body_a) ''users''
                    (recording (dynamo no_update)) (table_a, []))) = [CallUpdateItem input] \<and>
        ui_UpdateExpression input = Some ''SET fieldName = :fieldName'')"
proof
  fix enc
  have h1: "json_Unmarshal (sample_lib enc) (Body (sample_request body_a)) = Some user_a"
    by (simp add: sample_request_def sample_parse)
  have h2: "FirstName user_a \<noteq> []"
    by (simp add: user_a_def)
  have h3: "LastName user_a = []"
    by (simp add: user_a_def)
  show "json_Unmarshal (sample_lib enc) (Body (sample_request body_a)) = Some user_a \<and>
     FirstName user_a \<noteq> [] \<and>
     (\<exists>input.
        snd (snd (UpdateUser (sample_lib enc) (sample_request body_a) ''users''
                    (recording (dynamo no_update)) (table_a, []))) = [CallUpdateItem input] \<and>
        ui_UpdateExpression input = Some ''SET fieldName = :fieldName'')"
    using h1 h2
      UpdateUser_expression_names_fieldName [OF h1 h2, of "''users''" "dynamo no_update" table_a "[]"]
    by (simp add: h3)
qed

text \<open>
  C7. The specification asks Delete to answer "user does not exist" for an unknown email and to
  remove a stored record. On the reference backend every Delete whose body decodes fails
  with "could not delete item" and leaves the table as it was, whether or not a record
  of that email is stored: the key it sends is the whole marshalled record, which a
  table keyed by \<^verbatim>\<open>email\<close> rejects before it looks at the condition.
\<close>

theorem DeleteUser_key_rejected:
  assumes "json_Unmarshal lib (Body req) = Some u"
  shows "DeleteUser lib req tableName (dynamo upd) t = (Some ErrorCouldNotDeleteItem, t)"
  using assms
  by (simp add: DeleteUser_def MarshalMap_def dynamo_def dyn_DeleteItem_def key_of_Key_marshalled)

theorem DeleteUser_key_rejected_witness:
  "\<forall>enc. json_Unmarshal (sample_lib enc) (Body (sample_request body_a_key)) = Some user_a_key \<and>
     lookup_item (tbl_items table_a) ''a@x.com'' = Some item_a \<and>
     DeleteUser (sample_lib enc) (sample_request body_a_key) ''users'' (dynamo no_update) table_a =
       (Some ''could not delete item'', table_a) \<and>
     lookup_item (tbl_items empty_table) ''a@x.com'' = None \<and>
     DeleteUser (sample_lib enc) (sample_request body_a_key) ''users'' (dynamo no_update)
       empty_table = (Some ''could not delete item'', empty_table)"
proof
  fix enc
  have h: "json_Unmarshal (sample_lib enc) (Body (sample_request body_a_key)) = Some user_a_key"
    by (simp add: sample_request_def sample_parse)
  show "json_Unmarshal (sample_lib enc) (Body (sample_request body_a_key)) = Some user_a_key \<and>
     lookup_item (tbl_items table_a) ''a@x.com'' = Some item_a \<and>
     DeleteUser (sample_lib enc) (sample_request body_a_key) ''users'' (dynamo no_update) table_a =
       (Some ''could not delete item'', table_a) \<and>
     lookup_item (tbl_items empty_table) ''a@x.com'' = None \<and>
     DeleteUser (sample_lib enc) (sample_request body_a_key) ''users'' (dynamo no_update)
       empty_table = (Some ''could not delete item'', empty_table)"
    using h DeleteUser_key_rejected [OF h, of "''users''" no_update table_a]
      DeleteUser_key_rejected [OF h, of "''users''" no_update empty_table]
    by (simp add: ErrorCouldNotDeleteItem_def table_a_def empty_table_def lookup_item_def
        sample_keys)
qed

text \<open>
  C10. For every Update and every Delete request whose body decodes to a user \<open>u\<close>, the
  one call the function makes carries as key the whole marshalled record: the three
  attributes \<^verbatim>\<open>email\<close>, \<^verbatim>\<open>firstName\<close> and \<^verbatim>\<open>lastName\<close>, not the \<^verbatim>\<open>email\<close> attribute
  alone. Two users have the same marshalled record only when they are equal, so the key
  changes with each of the three fields.
\<close>

theorem Update_Delete_key_is_whole_item:
  assumes "json_Unmarshal lib (Body req) = Some u"
  shows "(\<exists>input.
            snd (snd (UpdateUser lib req tableName (recording dynaClient) (s, log))) =
              log @ [CallUpdateItem input] \<and>
            Some (ui_Key input) = MarshalMap u) \<and>
         (\<exists>input.
            snd (snd (DeleteUser lib req tableName (recording dynaClient) (s, log))) =
              log @ [CallDeleteItem input] \<and>
            Some (di_Key input) = MarshalMap u) \<and>
         MarshalMap u =
           Some [(''email'', encodeString (Email u)),
                 (''firstName'', encodeString (FirstName u)),
                 (''lastName'', encodeString (LastName u))] \<and>
         (\<forall>u'. (MarshalMap u' = MarshalMap u) = (u' = u))"
  using UpdateUser_recorded [OF assms, of tableName dynaClient s log]
    DeleteUser_recorded [OF assms, of tableName dynaClient s log]
  by (simp add: MarshalMap_inject) (simp add: MarshalMap_def)

theorem Update_Delete_key_is_whole_item_witness:
  "\<forall>enc. json_Unmarshal (sample_lib enc) (Body (sample_request body_a)) = Some user_a \<and>
     (\<exists>input.
        snd (snd (UpdateUser (sample_lib enc) (sample_request body_a) ''users''
                    (recording (dynamo no_update)) (table_a, []))) = [CallUpdateItem input] \<and>
        ui_Key input = item_a) \<and>
     (\<exists>input.
        snd (snd (DeleteUser (sample_lib enc) (sample_request body_a) ''users''
                    (recording (dynamo no_update)) (table_a, []))) = [CallDeleteItem input] \<and>
        di_Key input = item_a)"
proof
  fix enc
  have h: "json_Unmarshal (sample_lib enc) (Body (sample_request body_a)) = Some user_a"
    by (simp add: sample_request_def sample_parse)
  show "json_Unmarshal (sample_lib enc) (Body (sample_request body_a)) = Some user_a \<and>
     (\<exists>input.
        snd (snd (UpdateUser (sample_lib enc) (sample_request body_a) ''users''
                    (recording (dynamo no_update)) (table_a, []))) = [CallUpdateItem input] \<and>
        ui_Key input = item_a) \<and>
     (\<exists>input.
        snd (snd (DeleteUser (sample_lib enc) (sample_request body_a) ''users''
                    (recording (dynamo no_update)) (table_a, []))) = [CallDeleteItem input] \<and>
        di_Key input = item_a)"
    using h
      Update_Delete_key_is_whole_item [OF h, of "''users''" "dynamo no_update" table_a "[]"]
    by (simp add: sample_marshal)
qed

subsection \<open>The dispatch layer\<close>

text \<open>
  C8. When the request carries a non-empty \<^verbatim>\<open>email\<close> path parameter, the Fetch handler's
  answer is the one FetchOne gives for that email; when the parameter is absent or empty
  it is the one FetchAll gives. In both cases a success becomes the response with status
  200 whose body is the encoding of the fetched record, or of the fetched list.
\<close>

theorem GetUser_routes:
  "(PathParameters req ''email'' = Some email \<and> email \<noteq> [] \<longrightarrow>
      handlers_GetUser lib req tableName dynaClient s =
        (case FetchUser email tableName dynaClient s of
           (Inl err, s') \<Rightarrow>
             Some (apiResponse lib StatusInternalServerError (PErrorBody (Some err)), s')
         | (Inr u, s') \<Rightarrow>
             Some (\<lparr>StatusCode = 200, ResponseBody = json_Marshal lib (PUser u)\<rparr>, s'))) \<and>
   (PathParameters req ''email'' = None \<or> PathParameters req ''email'' = Some [] \<longrightarrow>
      handlers_GetUser lib req tableName dynaClient s =
        (case FetchUsers tableName dynaClient s of
           None \<Rightarrow> None
         | Some (Inl err, s') \<Rightarrow>
             Some (apiResponse lib StatusInternalServerError (PErrorBody (Some err)), s')
         | Some (Inr us, s') \<Rightarrow>
             Some (\<lparr>StatusCode = 200, ResponseBody = json_Marshal lib (PUsers us)\<rparr>, s')))"
  by (auto simp: handlers_GetUser_def apiResponse_def StatusOK_def
      split: prod.splits sum.splits option.splits)

theorem GetUser_routes_witness:
  "\<forall>enc.
     handlers_GetUser (sample_lib enc)
       \<lparr>PathParameters = [''email'' \<mapsto> ''a@x.com''], Body = []\<rparr> ''users''
       (dynamo no_update) table_a =
       Some (\<lparr>StatusCode = 200, ResponseBody = enc (PUser user_a)\<rparr>, table_a) \<and>
     handlers_GetUser (sample_lib enc) \<lparr>PathParameters = Map.empty, Body = []\<rparr> ''users''
       (dynamo no_update) table_abc =
       Some (\<lparr>StatusCode = 200, ResponseBody = enc (PUsers [user_a, user_b, user_c])\<rparr>,
             table_abc)"
proof
  fix enc
  let ?one = "\<lparr>PathParameters = [''email'' \<mapsto> ''a@x.com''], Body = []\<rparr>"
  let ?all = "\<lparr>PathParameters = Map.empty, Body = []\<rparr>"
  have one: "PathParameters ?one ''email'' = Some ''a@x.com'' \<and> ''a@x.com'' \<noteq> []"
    by simp
  have all: "PathParameters ?all ''email'' = None \<or> PathParameters ?all ''email'' = Some []"
    by simp
  have scan: "FetchUsers ''users'' (dynamo no_update) table_abc =
      Some (Inr [user_a, user_b, user_c], table_abc)"
    using FetchUsers_plain [OF sample_wf(1) _ sample_decode] by (simp add: table_abc_def)
  have "handlers_GetUser (sample_lib enc) ?one ''users'' (dynamo no_update) table_a =
       Some (\<lparr>StatusCode = 200, ResponseBody = enc (PUser user_a)\<rparr>, table_a)"
    using one
      GetUser_routes [of ?one "''a@x.com''" "sample_lib enc" "''users''" "dynamo no_update" table_a]
    by (simp add: sample_fetch_a sample_parse)
  moreover
  have "handlers_GetUser (sample_lib enc) ?all ''users'' (dynamo no_update) table_abc =
       Some (\<lparr>StatusCode = 200, ResponseBody = enc (PUsers [user_a, user_b, user_c])\<rparr>,
             table_abc)"
    using all
      GetUser_routes [of ?all "[]" "sample_lib enc" "''users''" "dynamo no_update" table_abc]
    by (simp add: scan sample_parse)
  ultimately
  show "handlers_GetUser (sample_lib enc) ?one ''users'' (dynamo no_update) table_a =
       Some (\<lparr>StatusCode = 200, ResponseBody = enc (PUser user_a)\<rparr>, table_a) \<and>
     handlers_GetUser (sample_lib enc) ?all ''users'' (dynamo no_update) table_abc =
       Some (\<lparr>StatusCode = 200, ResponseBody = enc (PUsers [user_a, user_b, user_c])\<rparr>,
             table_abc)"
    by simp
qed

text \<open>
  C9. Whatever error message a storage function returns, the handler that called it
  answers with status 500 and the encoding of the error body that holds this message;
  this is so for Fetch (one record or all), Create, Update and Delete. The response for
  an unrecognized operation has status 405 and encodes the fixed text
  "Method not allowed", and the dispatch gives exactly this response for every
  unrecognized selector, without touching the backend state.
\<close>

theorem failures_are_500:
  "(PathParameters req ''email'' = Some email \<and> email \<noteq> [] \<and>
      FetchUser email tableName dynaClient s = (Inl msg, s') \<longrightarrow>
    handlers_GetUser lib req tableName dynaClient s =
      Some (\<lparr>StatusCode = 500, ResponseBody = json_Marshal lib (PErrorBody (Some msg))\<rparr>, s')) \<and>
   ((PathParameters req ''email'' = None \<or> PathParameters req ''email'' = Some []) \<and>
      FetchUsers tableName dynaClient s = Some (Inl msg, s') \<longrightarrow>
    handlers_GetUser lib req tableName dynaClient s =
      Some (\<lparr>StatusCode = 500, ResponseBody = json_Marshal lib (PErrorBody (Some msg))\<rparr>, s')) \<and>
   (CreateUser lib req tableName dynaClient s = (Inl msg, s') \<longrightarrow>
    handlers_CreateUser lib req tableName dynaClient s =
      (\<lparr>StatusCode = 500, ResponseBody = json_Marshal lib (PErrorBody (Some msg))\<rparr>, s')) \<and>
   (UpdateUser lib req tableName dynaClient s = (Inl msg, s') \<longrightarrow>
    handlers_UpdateUser lib req tableName dynaClient s =
      (\<lparr>StatusCode = 500, ResponseBody = json_Marshal lib (PErrorBody (Some msg))\<rparr>, s')) \<and>
   (DeleteUser lib req tableName dynaClient s = (Some msg, s') \<longrightarrow>
    handlers_DeleteUser lib req tableName dynaClient s =
      (\<lparr>StatusCode = 500, ResponseBody = json_Marshal lib (PErrorBody (Some msg))\<rparr>, s')) \<and>
   UnhandledMethod lib =
     \<lparr>StatusCode = 405, ResponseBody = json_Marshal lib (PString ''Method not allowed'')\<rparr> \<and>
   dispatch lib (OpUnrecognized m) req tableName dynaClient s = Some (UnhandledMethod lib, s)"
  by (auto simp: handlers_GetUser_def handlers_CreateUser_def handlers_UpdateUser_def
      handlers_DeleteUser_def UnhandledMethod_def apiResponse_def
      StatusInternalServerError_def StatusMethodNotAllowed_def ErrorMethodNotAllowed_def)

theorem failures_are_500_witness:
  "\<forall>enc.
     handlers_GetUser (sample_lib enc)
       \<lparr>PathParameters = [''email'' \<mapsto> ''a@x.com''], Body = []\<rparr> ''users''
       (dynamo no_update) table_odd =
       Some (\<lparr>StatusCode = 500,
              ResponseBody = enc (PErrorBody (Some ''failed to unmarshal record''))\<rparr>, table_odd) \<and>
     handlers_GetUser (sample_lib enc) \<lparr>PathParameters = Map.empty, Body = []\<rparr> ''users''
       (dynamo no_update) table_odd =
       Some (\<lparr>StatusCode = 500,
              ResponseBody = enc (PErrorBody (Some ''failed to unmarshal record''))\<rparr>, table_odd) \<and>
     handlers_CreateUser (sample_lib enc) (sample_request body_bad) ''users''
       (dynamo no_update) table_a =
       (\<lparr>StatusCode = 500, ResponseBody = enc (PErrorBody (Some ''invalid email''))\<rparr>, table_a) \<and>
     handlers_UpdateUser (sample_lib enc) (sample_request body_a) ''users''
       (dynamo no_update) table_a =
       (\<lparr>StatusCode = 500, ResponseBody = enc (PErrorBody (Some ''could not put item''))\<rparr>,
        table_a) \<and>
     handlers_DeleteUser (sample_lib enc) (sample_request body_a_key) ''users''
       (dynamo no_update) table_a =
       (\<lparr>StatusCode = 500, ResponseBody = enc (PErrorBody (Some ''could not delete item''))\<rparr>,
        table_a) \<and>
     dispatch (sample_lib enc) (OpUnrecognized ''PATCH'') (sample_request body_a) ''users''
       (dynamo no_update) table_a =
       Some (\<lparr>StatusCode = 405, ResponseBody = enc (PString ''Method not allowed'')\<rparr>, table_a)"
proof
  fix enc
  let ?one = "\<lparr>PathParameters = [''email'' \<mapsto> ''a@x.com''], Body = []\<rparr>"
  let ?all = "\<lparr>PathParameters = Map.empty, Body = []\<rparr>"
  let ?lib = "sample_lib enc" and ?c = "dynamo no_update"
  have one: "PathParameters ?one ''email'' = Some ''a@x.com'' \<and> ''a@x.com'' \<noteq> []"
    by simp
  have all: "PathParameters ?all ''email'' = None \<or> PathParameters ?all ''email'' = Some []"
    by simp
  have "handlers_GetUser ?lib ?one ''users'' ?c table_odd =
       Some (\<lparr>StatusCode = 500,
              ResponseBody = enc (PErrorBody (Some ''failed to unmarshal record''))\<rparr>, table_odd)"
    using one sample_fetch_odd [of "''users''" no_update]
      failures_are_500 [of ?one "''a@x.com''" "''users''" ?c table_odd
        "''failed to unmarshal record''" table_odd ?lib]
    by (simp add: sample_parse)
  moreover
  have "handlers_GetUser ?lib ?all ''users'' ?c table_odd =
       Some (\<lparr>StatusCode = 500,
              ResponseBody = enc (PErrorBody (Some ''failed to unmarshal record''))\<rparr>, table_odd)"
    using all sample_scan_odd [of "''users''" no_update]
      failures_are_500 [of ?all "[]" "''users''" ?c table_odd
        "''failed to unmarshal record''" table_odd ?lib]
    by (simp add: sample_parse)
  moreover
  have "handlers_CreateUser ?lib (sample_request body_bad) ''users'' ?c table_a =
       (\<lparr>StatusCode = 500, ResponseBody = enc (PErrorBody (Some ''invalid email''))\<rparr>, table_a)"
    using sample_create_bad [of enc "''users''" ?c table_a]
      failures_are_500 [of "sample_request body_bad" "[]" "''users''" ?c table_a
        "''invalid email''" table_a ?lib]
    by (simp add: sample_parse)
  moreover
  have "handlers_UpdateUser ?lib (sample_request body_a) ''users'' ?c table_a =
       (\<lparr>StatusCode = 500, ResponseBody = enc (PErrorBody (Some ''could not put item''))\<rparr>,
        table_a)"
    using sample_update_a [of enc "''users''" table_a]
      failures_are_500 [of "sample_request body_a" "[]" "''users''" ?c table_a
        "''could not put item''" table_a ?lib]
    by (simp add: sample_parse)
  moreover
  have "handlers_DeleteUser ?lib (sample_request body_a_key) ''users'' ?c table_a =
       (\<lparr>StatusCode = 500, ResponseBody = enc (PErrorBody (Some ''could not delete item''))\<rparr>,
        table_a)"
    using sample_delete_a [of enc "''users''" no_update table_a]
      failures_are_500 [of "sample_request body_a_key" "[]" "''users''" ?c table_a
        "''could not delete item''" table_a ?lib]
    by (simp add: sample_parse)
  moreover
  have "dispatch ?lib (OpUnrecognized ''PATCH'') (sample_request body_a) ''users'' ?c table_a =
       Some (\<lparr>StatusCode = 405, ResponseBody = enc (PString ''Method not allowed'')\<rparr>, table_a)"
    using failures_are_500 [of "sample_request body_a" "[]" "''users''" ?c table_a
        "[]" table_a ?lib "''PATCH''"]
    by (simp add: sample_parse)
  ultimately
  show "handlers_GetUser ?lib ?one ''users'' ?c table_odd =
       Some (\<lparr>StatusCode = 500,
              ResponseBody = enc (PErrorBody (Some ''failed to unmarshal record''))\<rparr>, table_odd) \<and>
     handlers_GetUser ?lib ?all ''users'' ?c table_odd =
       Some (\<lparr>StatusCode = 500,
              ResponseBody = enc (PErrorBody (Some ''failed to unmarshal record''))\<rparr>, table_odd) \<and>
     handlers_CreateUser ?lib (sample_request body_bad) ''users'' ?c table_a =
       (\<lparr>StatusCode = 500, ResponseBody = enc (PErrorBody (Some ''invalid email''))\<rparr>, table_a) \<and>
     handlers_UpdateUser ?lib (sample_request body_a) ''users'' ?c table_a =
       (\<lparr>StatusCode = 500, ResponseBody = enc (PErrorBody (Some ''could not put item''))\<rparr>,
        table_a) \<and>
     handlers_DeleteUser ?lib (sample_request body_a_key) ''users'' ?c table_a =
       (\<lparr>StatusCode = 500, ResponseBody = enc (PErrorBody (Some ''could not delete item''))\<rparr>,
        table_a) \<and>
     dispatch ?lib (OpUnrecognized ''PATCH'') (sample_request body_a) ''users'' ?c table_a =
       Some (\<lparr>StatusCode = 405, ResponseBody = enc (PString ''Method not allowed'')\<rparr>, table_a)"
    by simp
qed

end
